theory Spec2Isabelle
  imports Complex_Main
begin

section \<open>The logger package: a shallow embedding of logger.go\<close>

text \<open>
  The package wraps \<open>log/slog\<close> and the Sentry SDK. Everything the package does not
  define itself (the JSON handler of \<open>log/slog\<close>, \<open>sentry.Init\<close>) is a parameter of the
  model, collected in the record \<open>extern\<close>; the calls that the package makes to the
  Sentry SDK are recorded, in order, in the world.
\<close>

subsection \<open>Levels\<close>

text \<open>
  \<open>slog.Level\<close> is a Go \<open>int\<close>; the package only compares levels, so the model uses
  \<open>int\<close>. The four named constants have the values of \<open>log/slog\<close>.
\<close>

type_synonym Level = int

definition LevelDebug :: Level where "LevelDebug = - 4"
definition LevelInfo :: Level where "LevelInfo = 0"
definition LevelWarn :: Level where "LevelWarn = 4"
definition LevelError :: Level where "LevelError = 8"

text \<open>\<open>sentry.Level\<close>: the severity vocabulary of the Sentry SDK.\<close>

datatype sentry_Level =
  sentry_LevelDebug | sentry_LevelInfo | sentry_LevelWarning | sentry_LevelError
  | sentry_LevelFatal

text \<open>\<open>slogToSentryLevel\<close>, logger.go lines 124-137.\<close>

definition slogToSentryLevel :: "Level \<Rightarrow> sentry_Level" where
  "slogToSentryLevel level =
     (if level = LevelDebug then sentry_LevelDebug
      else if level = LevelInfo then sentry_LevelInfo
      else if level = LevelWarn then sentry_LevelWarning
      else if level = LevelError then sentry_LevelError
      else sentry_LevelInfo)"

subsection \<open>Records, attributes, errors\<close>

text \<open>
  An attribute value is a string (\<open>slog.String\<close>) or a value of any other kind, kept
  abstract in \<open>'v\<close>. A Go \<open>error\<close> is represented by its message.
\<close>

datatype 'v Value = StringValue string | AnyValue 'v

type_synonym 'v Attr = "string \<times> 'v Value"

type_synonym error = string

text \<open>
  \<open>slog.Record\<close>: the level, the message and the attributes in the order in which
  \<open>Record.Attrs\<close> iterates over them. Time and program counter are not read by the
  package.
\<close>

record 'v Record =
  Record_Level :: Level
  Record_Message :: string
  Record_Attrs :: "'v Attr list"

text \<open>\<open>Config\<close>, logger.go lines 17-21.\<close>

record Config =
  LogLevel :: string
  SentryDSN :: string
  EnableSentry :: bool

text \<open>\<open>slog.HandlerOptions\<close> and \<open>sentry.ClientOptions\<close>, with the fields the package sets.\<close>

record HandlerOptions =
  HandlerOptions_Level :: Level
  HandlerOptions_AddSource :: bool

record ClientOptions =
  Dsn :: string
  EnableTracing :: bool
  TracesSampleRate :: real

subsection \<open>The Sentry SDK as seen from the package\<close>

text \<open>
  The world holds the trace of the calls made to the \<open>sentry\<close> package and the state
  \<open>'s\<close> of everything outside it (standard output, as far as the handlers of
  \<open>log/slog\<close> are concerned). A \<open>Capture\<close> entry is one call of
  \<open>sentry.CaptureMessage\<close> inside \<open>sentry.WithScope\<close>, with the extras and the level set
  on the scope before the call.
\<close>

datatype 'v sentry_call =
  Init ClientOptions
  | Flush int
  | Capture "string \<rightharpoonup> 'v Value" sentry_Level string

record ('v, 's) world =
  sentry_calls :: "'v sentry_call list"
  outside :: 's

definition sentry_call :: "'v sentry_call \<Rightarrow> ('v, 's) world \<Rightarrow> ('v, 's) world" where
  "sentry_call c w = w\<lparr>sentry_calls := sentry_calls w @ [c]\<rparr>"

subsection \<open>Handlers\<close>

text \<open>
  A \<open>slog.Handler\<close> is one of the two handler types of the package or a handler
  defined elsewhere (\<open>External\<close>), such as the one \<open>slog.NewJSONHandler\<close> returns.
  The structs \<open>sentryHandler\<close> (lines 87-90) and \<open>combinedHandler\<close> (lines 161-164)
  keep their field names; the field \<open>next\<close> is \<open>next_handler\<close>, and \<open>nil\<close> there is \<open>None\<close>.
\<close>

datatype 'x Handler =
  External 'x
  | SentryHandler (next_handler: "'x Handler option") (minLogLevel: Level)
  | CombinedHandler (jsonHandler: "'x Handler") (sentryHandler: "'x Handler")

text \<open>
  What the package takes from its libraries: the constructor and the four methods of the
  external handlers, which act on the outside state only, and \<open>sentry.Init\<close>, which
  fails or not depending on the client options.
\<close>

record ('x, 'v, 's) extern =
  NewJSONHandler :: "HandlerOptions \<Rightarrow> 'x"
  ext_Handle :: "'x \<Rightarrow> 'v Record \<Rightarrow> 's \<Rightarrow> error option \<times> 's"
  ext_Enabled :: "'x \<Rightarrow> Level \<Rightarrow> bool"
  ext_WithAttrs :: "'x \<Rightarrow> 'v Attr list \<Rightarrow> 'x"
  ext_WithGroup :: "'x \<Rightarrow> string \<Rightarrow> 'x"
  sentry_Init :: "ClientOptions \<Rightarrow> error option"

text \<open>
  Lines 101-115 of \<open>sentryHandler.Handle\<close>: the attributes are collected into a Go map
  (a later attribute with the same key overwrites an earlier one), set as extras on a
  scope together with the mapped level, and the message is captured. The value that
  \<open>sentry.CaptureMessage\<close> returns is discarded by the source.
\<close>

definition collect_attrs :: "'v Attr list \<Rightarrow> (string \<rightharpoonup> 'v Value)" where
  "collect_attrs as = foldl (\<lambda>m (k, v). m(k \<mapsto> v)) Map.empty as"

definition capture :: "'v Record \<Rightarrow> ('v, 's) world \<Rightarrow> ('v, 's) world" where
  "capture record w =
     sentry_call (Capture (collect_attrs (Record_Attrs record))
                          (slogToSentryLevel (Record_Level record))
                          (Record_Message record)) w"

text \<open>
  The method \<open>Handle\<close> of the three kinds of handler: an external handler (calls the
  library), \<open>sentryHandler.Handle\<close> (lines 93-121) and \<open>combinedHandler.Handle\<close>
  (lines 167-176). The result is the returned error (\<open>None\<close> is \<open>nil\<close>) and the world
  after the call. In \<open>sentryHandler.Handle\<close> the two nested conditions of lines 95-96
  guard the one early return of line 97; when either fails, control reaches line 101.
\<close>

function Handle ::
  "('x, 'v, 's) extern \<Rightarrow> 'x Handler \<Rightarrow> 'v Record \<Rightarrow> ('v, 's) world
     \<Rightarrow> error option \<times> ('v, 's) world" where
  "Handle lib (External x) record w =
     (case ext_Handle lib x record (outside w) of
        (err, s') \<Rightarrow> (err, w\<lparr>outside := s'\<rparr>))"
| "Handle lib (SentryHandler nxt minLevel) record w =
     (if Record_Level record < minLevel \<and> nxt \<noteq> None
      then Handle lib (the nxt) record w
      else let w' = capture record w in
           if nxt \<noteq> None then Handle lib (the nxt) record w'
           else (None, w'))"
| "Handle lib (CombinedHandler jsonH sentryH) record w =
     (case Handle lib jsonH record w of
        (Some err, w') \<Rightarrow> (Some err, w')
      | (None, w') \<Rightarrow> Handle lib sentryH record w')"
  by pat_completeness auto
termination
  by (relation "measure (\<lambda>(lib, h, record, w). size h)") auto

text \<open>
  \<open>Enabled\<close>: \<open>sentryHandler.Enabled\<close> (lines 140-142) and \<open>combinedHandler.Enabled\<close>
  (lines 179-181).
\<close>

fun Enabled :: "('x, 'v, 's) extern \<Rightarrow> 'x Handler \<Rightarrow> Level \<Rightarrow> bool" where
  "Enabled lib (External x) level = ext_Enabled lib x level"
| "Enabled lib (SentryHandler nxt minLevel) level = (level \<ge> minLevel)"
| "Enabled lib (CombinedHandler jsonH sentryH) level =
     (Enabled lib jsonH level \<or> Enabled lib sentryH level)"

text \<open>
  \<open>WithAttrs\<close> and \<open>WithGroup\<close>: \<open>sentryHandler\<close> (lines 145-158) builds a handler from
  its own two fields; \<open>combinedHandler\<close> (lines 184-197) derives both branches.
\<close>

fun WithAttrs :: "('x, 'v, 's) extern \<Rightarrow> 'x Handler \<Rightarrow> 'v Attr list \<Rightarrow> 'x Handler" where
  "WithAttrs lib (External x) attrs = External (ext_WithAttrs lib x attrs)"
| "WithAttrs lib (SentryHandler nxt minLevel) attrs = SentryHandler nxt minLevel"
| "WithAttrs lib (CombinedHandler jsonH sentryH) attrs =
     CombinedHandler (WithAttrs lib jsonH attrs) (WithAttrs lib sentryH attrs)"

fun WithGroup :: "('x, 'v, 's) extern \<Rightarrow> 'x Handler \<Rightarrow> string \<Rightarrow> 'x Handler" where
  "WithGroup lib (External x) name = External (ext_WithGroup lib x name)"
| "WithGroup lib (SentryHandler nxt minLevel) name = SentryHandler nxt minLevel"
| "WithGroup lib (CombinedHandler jsonH sentryH) name =
     CombinedHandler (WithGroup lib jsonH name) (WithGroup lib sentryH name)"

subsection \<open>Loggers\<close>

text \<open>
  \<open>slog.Logger\<close> holds one handler. \<open>slog.New\<close> wraps a handler; \<open>Logger.With\<close>
  returns the receiver when it is given no attribute and otherwise a logger on the
  handler's \<open>WithAttrs\<close>; \<open>Logger.Enabled\<close> asks the handler; an output method such as
  \<open>Logger.Info\<close> builds a record and hands it to the handler when the handler is enabled
  for the level, and drops the error the handler returns.
\<close>

datatype 'x Logger = Logger (handler: "'x Handler")

definition slog_New :: "'x Handler \<Rightarrow> 'x Logger" where
  "slog_New h = Logger h"

definition Logger_With ::
  "('x, 'v, 's) extern \<Rightarrow> 'x Logger \<Rightarrow> 'v Attr list \<Rightarrow> 'x Logger" where
  "Logger_With lib l attrs =
     (if attrs = [] then l else Logger (WithAttrs lib (handler l) attrs))"

definition Logger_Enabled :: "('x, 'v, 's) extern \<Rightarrow> 'x Logger \<Rightarrow> Level \<Rightarrow> bool" where
  "Logger_Enabled lib l level = Enabled lib (handler l) level"

definition Logger_Log ::
  "('x, 'v, 's) extern \<Rightarrow> 'x Logger \<Rightarrow> Level \<Rightarrow> string \<Rightarrow> 'v Attr list
     \<Rightarrow> ('v, 's) world \<Rightarrow> ('v, 's) world" where
  "Logger_Log lib l level msg attrs w =
     (if Logger_Enabled lib l level
      then snd (Handle lib (handler l)
                  \<lparr>Record_Level = level, Record_Message = msg, Record_Attrs = attrs\<rparr> w)
      else w)"

subsection \<open>The constructors \<open>New\<close> and \<open>NewTag\<close>\<close>

text \<open>The switch on \<open>config.LogLevel\<close>, lines 25-37 of \<open>New\<close>.\<close>

definition New_level :: "Config \<Rightarrow> Level" where
  "New_level config =
     (if LogLevel config = ''debug'' then LevelDebug
      else if LogLevel config = ''info'' then LevelInfo
      else if LogLevel config = ''warn'' then LevelWarn
      else if LogLevel config = ''error'' then LevelError
      else LevelInfo)"

text \<open>The handler options, lines 39-42, and the client options, lines 57-61, of \<open>New\<close>.\<close>

definition New_opts :: "Config \<Rightarrow> HandlerOptions" where
  "New_opts config =
     \<lparr>HandlerOptions_Level = New_level config, HandlerOptions_AddSource = True\<rparr>"

definition New_clientOptions :: "Config \<Rightarrow> ClientOptions" where
  "New_clientOptions config =
     \<lparr>Dsn = SentryDSN config, EnableTracing = True, TracesSampleRate = 5 / 100\<rparr>"

text \<open>
  \<open>New\<close>, lines 24-71. The result is \<open>Inl\<close> the error or \<open>Inr\<close> the logger, and the
  world after the call; the deferred \<open>sentry.Flush(2 * time.Second)\<close> runs when the
  function returns the combined logger (a \<open>time.Duration\<close> counts nanoseconds).
\<close>

definition New ::
  "('x, 'v, 's) extern \<Rightarrow> Config \<Rightarrow> ('v, 's) world
     \<Rightarrow> (error + 'x Logger) \<times> ('v, 's) world" where
  "New lib config w =
     (let jsonH = External (NewJSONHandler lib (New_opts config));
          sentryH = SentryHandler None LevelWarn;
          combinedH = CombinedHandler jsonH sentryH
      in if EnableSentry config \<and> SentryDSN config \<noteq> []
         then (let w1 = sentry_call (Init (New_clientOptions config)) w
               in case sentry_Init lib (New_clientOptions config) of
                    Some err \<Rightarrow> (Inl (''sentry.Init failed: '' @ err), w1)
                  | None \<Rightarrow>
                      (Inr (slog_New combinedH), sentry_call (Flush (2 * 1000000000)) w1))
         else (Inr (slog_New jsonH), w))"

text \<open>\<open>NewTag\<close>, lines 74-84.\<close>

definition NewTag ::
  "('x, 'v, 's) extern \<Rightarrow> Config \<Rightarrow> string \<Rightarrow> ('v, 's) world
     \<Rightarrow> (error + 'x Logger) \<times> ('v, 's) world" where
  "NewTag lib config tag w =
     (case New lib config w of
        (Inl err, w') \<Rightarrow> (Inl err, w')
      | (Inr logger, w') \<Rightarrow>
          (Inr (Logger_With lib logger [(''tag'', StringValue tag)]), w'))"

subsection \<open>A test double for the libraries\<close>

text \<open>
  A stand-in for the JSON handler and for \<open>sentry.Init\<close>, used to run the model on
  concrete inputs: the handler remembers its options and the attributes and groups it
  was derived with; handling a record appends one line (level, message, the handler's
  attributes followed by the record's) to standard output, and fails when standard
  output is closed; \<open>sentry.Init\<close> fails on a DSN that does not start with
  \<open>https://\<close>.
\<close>

record 'v json_double =
  double_opts :: HandlerOptions
  double_attrs :: "'v Attr list"
  double_groups :: "string list"

record 'v stdout =
  stdout_closed :: bool
  stdout_lines :: "(Level \<times> string \<times> 'v Attr list) list"

definition double :: "('v json_double, 'v, 'v stdout) extern" where
  "double =
     \<lparr>NewJSONHandler =
        (\<lambda>opts. \<lparr>double_opts = opts, double_attrs = [], double_groups = []\<rparr>),
      ext_Handle =
        (\<lambda>x record s.
           if stdout_closed s then (Some ''write /dev/stdout: file already closed'', s)
           else (None, s\<lparr>stdout_lines := stdout_lines s @
                   [(Record_Level record, Record_Message record,
                     double_attrs x @ Record_Attrs record)]\<rparr>)),
      ext_Enabled = (\<lambda>x level. level \<ge> HandlerOptions_Level (double_opts x)),
      ext_WithAttrs = (\<lambda>x attrs. x\<lparr>double_attrs := double_attrs x @ attrs\<rparr>),
      ext_WithGroup = (\<lambda>x name. x\<lparr>double_groups := double_groups x @ [name]\<rparr>),
      sentry_Init =
        (\<lambda>opts. if take 8 (Dsn opts) = ''https://'' then None
                 else Some ''[Sentry] DsnParseError: invalid scheme'')\<rparr>"

definition world0 :: "(unit, unit stdout) world" where
  "world0 = \<lparr>sentry_calls = [], outside = \<lparr>stdout_closed = False, stdout_lines = []\<rparr>\<rparr>"

definition world_closed :: "(unit, unit stdout) world" where
  "world_closed = \<lparr>sentry_calls = [], outside = \<lparr>stdout_closed = True, stdout_lines = []\<rparr>\<rparr>"

definition json0 :: "unit json_double" where
  "json0 = \<lparr>double_opts = \<lparr>HandlerOptions_Level = LevelInfo, HandlerOptions_AddSource = True\<rparr>,
            double_attrs = [], double_groups = []\<rparr>"

section \<open>Properties\<close>

lemmas level_defs = LevelDebug_def LevelInfo_def LevelWarn_def LevelError_def

lemmas double_defs =
  double_def world0_def world_closed_def json0_def capture_def sentry_call_def
  collect_attrs_def slogToSentryLevel_def

lemmas New_defs = New_def New_opts_def New_level_def New_clientOptions_def slog_New_def

subsection \<open>The level mapper\<close>

text \<open>
  Claim C4. \<open>slogToSentryLevel\<close> is a total function that maps debug to debug, info to
  info, warn to warning, error to error, and every other level to info.
\<close>

theorem slogToSentryLevel_table:
  "slogToSentryLevel LevelDebug = sentry_LevelDebug \<and>
   slogToSentryLevel LevelInfo = sentry_LevelInfo \<and>
   slogToSentryLevel LevelWarn = sentry_LevelWarning \<and>
   slogToSentryLevel LevelError = sentry_LevelError \<and>
   (\<forall>level. level \<noteq> LevelDebug \<and> level \<noteq> LevelInfo \<and> level \<noteq> LevelWarn \<and>
      level \<noteq> LevelError \<longrightarrow> slogToSentryLevel level = sentry_LevelInfo)"
  by (simp add: slogToSentryLevel_def level_defs)

theorem slogToSentryLevel_table_witness:
  "(2 :: Level) \<noteq> LevelDebug \<and> (2 :: Level) \<noteq> LevelInfo \<and> (2 :: Level) \<noteq> LevelWarn \<and>
   (2 :: Level) \<noteq> LevelError \<and> slogToSentryLevel 2 = sentry_LevelInfo \<and>
   slogToSentryLevel 12 = sentry_LevelInfo"
proof -
  have other: "(2 :: Level) \<noteq> LevelDebug \<and> (2 :: Level) \<noteq> LevelInfo \<and>
      (2 :: Level) \<noteq> LevelWarn \<and> (2 :: Level) \<noteq> LevelError"
    by (simp add: level_defs)
  have other': "(12 :: Level) \<noteq> LevelDebug \<and> (12 :: Level) \<noteq> LevelInfo \<and>
      (12 :: Level) \<noteq> LevelWarn \<and> (12 :: Level) \<noteq> LevelError"
    by (simp add: level_defs)
  from slogToSentryLevel_table other other' show ?thesis
    by blast
qed

subsection \<open>The Sentry handler\<close>

text \<open>
  Claim C1. A record below the threshold of a \<open>sentryHandler\<close> is meant not to be sent
  to Sentry. The source returns early only when \<open>next\<close> is set; with \<open>next = nil\<close>, as
  \<open>New\<close> builds the handler, control falls through to the capture. Here a record at
  level info, handled by the handler with threshold warn and no \<open>next\<close>, is captured;
  and so is the record that \<open>Info\<close> emits on the logger that \<open>New\<close> returns for level
  \<open>info\<close> with Sentry enabled (the first two calls in the trace are those of \<open>New\<close>).
  With a \<open>next\<close> handler the same record is forwarded and not captured.
\<close>

theorem sentryHandler_Handle_below_threshold_captures:
  "Handle double (SentryHandler None LevelWarn)
     \<lparr>Record_Level = LevelInfo, Record_Message = ''m'', Record_Attrs = []\<rparr> world0
   = (None, world0\<lparr>sentry_calls := [Capture Map.empty sentry_LevelInfo ''m'']\<rparr>)
   \<and> (case New double
              \<lparr>LogLevel = ''info'', SentryDSN = ''https://k@h/1'', EnableSentry = True\<rparr> world0 of
        (Inr logger, w) \<Rightarrow>
          drop 2 (sentry_calls (Logger_Log double logger LevelInfo ''m'' [] w))
            = [Capture Map.empty sentry_LevelInfo ''m'']
      | (Inl err, w) \<Rightarrow> False)
   \<and> Handle double (SentryHandler (Some (External json0)) LevelWarn)
       \<lparr>Record_Level = LevelInfo, Record_Message = ''m'', Record_Attrs = []\<rparr> world0
     = (None, \<lparr>sentry_calls = [],
               outside = \<lparr>stdout_closed = False,
                           stdout_lines = [(LevelInfo, ''m'', [])]\<rparr>\<rparr>)"
  by (simp add: double_defs level_defs New_defs Logger_Log_def Logger_Enabled_def)

text \<open>
  Claim C8. For a record at or above the threshold, \<open>sentryHandler.Handle\<close> captures
  the message and then returns \<open>nil\<close> when there is no \<open>next\<close> handler, and otherwise
  exactly what the \<open>next\<close> handler returns for the record: nothing that the capture does
  reaches the returned error.
\<close>

theorem sentryHandler_Handle_at_threshold:
  "minLevel \<le> Record_Level r \<Longrightarrow>
   (nxt = None \<longrightarrow> Handle lib (SentryHandler nxt minLevel) r w = (None, capture r w)) \<and>
   (\<forall>n. nxt = Some n \<longrightarrow>
      Handle lib (SentryHandler nxt minLevel) r w = Handle lib n r (capture r w))"
  by (simp add: Let_def)

theorem sentryHandler_Handle_at_threshold_witness:
  "LevelWarn \<le> Record_Level \<lparr>Record_Level = LevelError, Record_Message = ''boom'',
                               Record_Attrs = [] :: unit Attr list\<rparr> \<and>
   fst (Handle double (SentryHandler None LevelWarn)
          \<lparr>Record_Level = LevelError, Record_Message = ''boom'', Record_Attrs = []\<rparr> world0)
     = None \<and>
   fst (Handle double (SentryHandler (Some (External json0)) LevelWarn)
          \<lparr>Record_Level = LevelError, Record_Message = ''boom'', Record_Attrs = []\<rparr>
          world_closed)
     = Some ''write /dev/stdout: file already closed''"
proof -
  have above: "LevelWarn \<le> Record_Level \<lparr>Record_Level = LevelError,
      Record_Message = ''boom'', Record_Attrs = [] :: unit Attr list\<rparr>"
    by (simp add: level_defs)
  from sentryHandler_Handle_at_threshold [OF above, of None double world0]
    sentryHandler_Handle_at_threshold [OF above, of "Some (External json0)" double world_closed]
  show ?thesis
    by (simp add: double_defs level_defs)
qed

text \<open>
  Claim C7. \<open>WithAttrs\<close> and \<open>WithGroup\<close> of a \<open>sentryHandler\<close> return a handler with
  the threshold and the \<open>next\<close> handler of the receiver and with nothing else: the
  attributes and the group name are dropped, so the returned handler treats every record
  as the receiver does. Handlers are values here, so the receiver cannot change.
\<close>

theorem sentryHandler_With_keeps_fields_only:
  "WithAttrs lib (SentryHandler nxt minLevel) attrs = SentryHandler nxt minLevel \<and>
   WithGroup lib (SentryHandler nxt minLevel) name = SentryHandler nxt minLevel \<and>
   next_handler (WithAttrs lib (SentryHandler nxt minLevel) attrs) = nxt \<and>
   minLogLevel (WithAttrs lib (SentryHandler nxt minLevel) attrs) = minLevel \<and>
   next_handler (WithGroup lib (SentryHandler nxt minLevel) name) = nxt \<and>
   minLogLevel (WithGroup lib (SentryHandler nxt minLevel) name) = minLevel \<and>
   Handle lib (WithAttrs lib (SentryHandler nxt minLevel) attrs) r w =
     Handle lib (SentryHandler nxt minLevel) r w \<and>
   Handle lib (WithGroup lib (SentryHandler nxt minLevel) name) r w =
     Handle lib (SentryHandler nxt minLevel) r w"
  by simp

subsection \<open>The combined handler\<close>

text \<open>
  Claim C2. \<open>combinedHandler.Handle\<close> calls the JSON branch first. When that returns an
  error, the error and the world the JSON branch left are the result, so the Sentry
  branch has not run; otherwise the result is that of the Sentry branch run next.
\<close>

theorem combinedHandler_Handle_json_first:
  "(\<forall>err w'. Handle lib jsonH r w = (Some err, w') \<longrightarrow>
      Handle lib (CombinedHandler jsonH sentryH) r w = (Some err, w')) \<and>
   (\<forall>w'. Handle lib jsonH r w = (None, w') \<longrightarrow>
      Handle lib (CombinedHandler jsonH sentryH) r w = Handle lib sentryH r w')"
  by simp

theorem combinedHandler_Handle_json_first_witness:
  "Handle double (CombinedHandler (External json0) (SentryHandler None LevelWarn))
     \<lparr>Record_Level = LevelError, Record_Message = ''boom'', Record_Attrs = []\<rparr> world_closed
   = (Some ''write /dev/stdout: file already closed'', world_closed)
   \<and>
   Handle double (CombinedHandler (External json0) (SentryHandler None LevelWarn))
     \<lparr>Record_Level = LevelError, Record_Message = ''boom'', Record_Attrs = []\<rparr> world0
   = (None, \<lparr>sentry_calls = [Capture Map.empty sentry_LevelError ''boom''],
             outside = \<lparr>stdout_closed = False,
                         stdout_lines = [(LevelError, ''boom'', [])]\<rparr>\<rparr>)"
  using combinedHandler_Handle_json_first [of double "External json0"
          "\<lparr>Record_Level = LevelError, Record_Message = ''boom'', Record_Attrs = []\<rparr>"
          world_closed "SentryHandler None LevelWarn"]
        combinedHandler_Handle_json_first [of double "External json0"
          "\<lparr>Record_Level = LevelError, Record_Message = ''boom'', Record_Attrs = []\<rparr>"
          world0 "SentryHandler None LevelWarn"]
  by (simp add: double_defs level_defs)

text \<open>
  Claim C6. \<open>combinedHandler.Enabled\<close> holds for a level exactly when the JSON branch
  or the Sentry branch is enabled for it.
\<close>

theorem combinedHandler_Enabled_or:
  "Enabled lib (CombinedHandler jsonH sentryH) level \<longleftrightarrow>
     Enabled lib jsonH level \<or> Enabled lib sentryH level"
  by simp

subsection \<open>The constructors\<close>

text \<open>
  Claim C5. For a configuration whose level string is none of \<open>debug\<close>, \<open>info\<close>,
  \<open>warn\<close>, \<open>error\<close>, the threshold that \<open>New\<close> gives the JSON handler is the one it
  gives for \<open>info\<close>, and so is everything else \<open>New\<close> does.
\<close>

theorem New_unrecognized_level_is_info:
  "LogLevel config \<notin> {''debug'', ''info'', ''warn'', ''error''} \<Longrightarrow>
   HandlerOptions_Level (New_opts config) =
     HandlerOptions_Level (New_opts (config\<lparr>LogLevel := ''info''\<rparr>)) \<and>
   HandlerOptions_Level (New_opts config) = LevelInfo \<and>
   New lib config w = New lib (config\<lparr>LogLevel := ''info''\<rparr>) w"
  by (simp add: New_def New_opts_def New_level_def New_clientOptions_def Let_def)

theorem New_unrecognized_level_is_info_witness:
  "''verbose'' \<notin> {''debug'', ''info'', ''warn'', ''error''} \<and>
   HandlerOptions_Level
     (New_opts \<lparr>LogLevel = ''verbose'', SentryDSN = '''', EnableSentry = False\<rparr>) = 0 \<and>
   fst (New double \<lparr>LogLevel = ''verbose'', SentryDSN = '''', EnableSentry = False\<rparr> world0)
     = Inr (Logger (External json0))"
proof -
  have unknown: "LogLevel \<lparr>LogLevel = ''verbose'', SentryDSN = '''', EnableSentry = False\<rparr>
      \<notin> {''debug'', ''info'', ''warn'', ''error''}"
    by simp
  from New_unrecognized_level_is_info [OF unknown, of double world0]
  show ?thesis
    by (simp add: double_defs level_defs New_defs)
qed

text \<open>
  Claim C3. \<open>New\<close> fails exactly when Sentry is enabled, the DSN is not empty and
  \<open>sentry.Init\<close> fails on the client options, and the error wraps the one of
  \<open>sentry.Init\<close>. When \<open>New\<close> returns a logger, its handler is the combined handler of
  the JSON handler and the Sentry handler if Sentry is enabled and the DSN is not empty,
  and the JSON handler alone otherwise; in that second case \<open>New\<close> calls nothing of the
  Sentry SDK and no record logged afterwards does.
\<close>

theorem New_handler_and_error:
  "(\<forall>e. fst (New lib config w) = Inl e \<longleftrightarrow>
      (EnableSentry config \<and> SentryDSN config \<noteq> [] \<and>
       (\<exists>err. sentry_Init lib (New_clientOptions config) = Some err \<and>
              e = ''sentry.Init failed: '' @ err))) \<and>
   (\<forall>logger. fst (New lib config w) = Inr logger \<longrightarrow>
      handler logger =
        (if EnableSentry config \<and> SentryDSN config \<noteq> []
         then CombinedHandler (External (NewJSONHandler lib (New_opts config)))
                (SentryHandler None LevelWarn)
         else External (NewJSONHandler lib (New_opts config)))) \<and>
   (\<not> (EnableSentry config \<and> SentryDSN config \<noteq> []) \<longrightarrow>
      snd (New lib config w) = w \<and>
      (\<forall>logger level msg attrs w'. fst (New lib config w) = Inr logger \<longrightarrow>
         sentry_calls (Logger_Log lib logger level msg attrs w') = sentry_calls w'))"
  by (auto simp add: New_def Let_def slog_New_def Logger_Log_def
      split: option.splits prod.splits)

theorem New_handler_and_error_witness:
  "fst (New double \<lparr>LogLevel = ''info'', SentryDSN = ''not a dsn'', EnableSentry = True\<rparr>
          world0)
     = Inl ''sentry.Init failed: [Sentry] DsnParseError: invalid scheme'' \<and>
   fst (New double \<lparr>LogLevel = ''info'', SentryDSN = ''https://k@h/1'', EnableSentry = True\<rparr>
          world0)
     = Inr (Logger (CombinedHandler (External json0) (SentryHandler None LevelWarn))) \<and>
   fst (New double \<lparr>LogLevel = ''info'', SentryDSN = ''https://k@h/1'', EnableSentry = False\<rparr>
          world0)
     = Inr (Logger (External json0)) \<and>
   Logger_Log double (Logger (External json0)) LevelError ''boom'' [] world0
     = \<lparr>sentry_calls = [],
        outside = \<lparr>stdout_closed = False, stdout_lines = [(LevelError, ''boom'', [])]\<rparr>\<rparr>"
  using
    New_handler_and_error [of double
      "\<lparr>LogLevel = ''info'', SentryDSN = ''not a dsn'', EnableSentry = True\<rparr>" world0]
    New_handler_and_error [of double
      "\<lparr>LogLevel = ''info'', SentryDSN = ''https://k@h/1'', EnableSentry = True\<rparr>" world0]
    New_handler_and_error [of double
      "\<lparr>LogLevel = ''info'', SentryDSN = ''https://k@h/1'', EnableSentry = False\<rparr>" world0]
  by (simp add: double_defs level_defs New_defs Logger_Log_def Logger_Enabled_def)

text \<open>
  Claim C9. \<open>NewTag\<close> fails exactly when \<open>New\<close> fails, with the same error and the same
  effects. When \<open>New\<close> returns a logger, \<open>NewTag\<close> returns the logger on that logger's
  handler derived with the single attribute \<open>tag\<close>; whatever a record handled by it
  writes outside the Sentry SDK is what the JSON handler of \<open>New\<close>, derived with that
  attribute, writes for the record; a record that the logger emits is handled so when
  the logger is enabled for its level and writes nothing otherwise.
\<close>

theorem NewTag_adds_tag:
  "(\<forall>err. fst (NewTag lib config tag w) = Inl err \<longleftrightarrow> fst (New lib config w) = Inl err) \<and>
   snd (NewTag lib config tag w) = snd (New lib config w) \<and>
   (\<forall>logger. fst (New lib config w) = Inr logger \<longrightarrow>
      fst (NewTag lib config tag w) =
        Inr (Logger (WithAttrs lib (handler logger) [(''tag'', StringValue tag)]))) \<and>
   (\<forall>logger' r w'. fst (NewTag lib config tag w) = Inr logger' \<longrightarrow>
      outside (snd (Handle lib (handler logger') r w')) =
        snd (ext_Handle lib
               (ext_WithAttrs lib (NewJSONHandler lib (New_opts config))
                  [(''tag'', StringValue tag)]) r (outside w'))) \<and>
   (\<forall>logger' level msg attrs w'. fst (NewTag lib config tag w) = Inr logger' \<longrightarrow>
      outside (Logger_Log lib logger' level msg attrs w') =
        (if Logger_Enabled lib logger' level
         then snd (ext_Handle lib
                     (ext_WithAttrs lib (NewJSONHandler lib (New_opts config))
                        [(''tag'', StringValue tag)])
                     \<lparr>Record_Level = level, Record_Message = msg, Record_Attrs = attrs\<rparr>
                     (outside w'))
         else outside w'))"
  by (auto simp add: NewTag_def New_def Let_def slog_New_def Logger_With_def capture_def
        sentry_call_def Logger_Log_def
      split: option.splits prod.splits sum.splits)

theorem NewTag_adds_tag_witness:
  "fst (NewTag double \<lparr>LogLevel = ''info'', SentryDSN = ''https://k@h/1'', EnableSentry = True\<rparr>
          ''X'' world0)
     = Inr (Logger (CombinedHandler
                      (External (json0\<lparr>double_attrs := [(''tag'', StringValue ''X'')]\<rparr>))
                      (SentryHandler None LevelWarn))) \<and>
   stdout_lines (outside (Logger_Log double
       (Logger (CombinedHandler
                  (External (json0\<lparr>double_attrs := [(''tag'', StringValue ''X'')]\<rparr>))
                  (SentryHandler None LevelWarn)))
       LevelInfo ''hello'' [] world0))
     = [(LevelInfo, ''hello'', [(''tag'', StringValue ''X'')])] \<and>
   fst (NewTag double \<lparr>LogLevel = ''info'', SentryDSN = ''not a dsn'', EnableSentry = True\<rparr>
          ''X'' world0)
     = Inl ''sentry.Init failed: [Sentry] DsnParseError: invalid scheme''"
  using
    NewTag_adds_tag [of double
      "\<lparr>LogLevel = ''info'', SentryDSN = ''https://k@h/1'', EnableSentry = True\<rparr>" "''X''" world0]
    NewTag_adds_tag [of double
      "\<lparr>LogLevel = ''info'', SentryDSN = ''not a dsn'', EnableSentry = True\<rparr>" "''X''" world0]
  by (simp add: double_defs level_defs New_defs NewTag_def Logger_With_def Logger_Log_def
        Logger_Enabled_def)

text \<open>
  Claim C10. When Sentry is enabled and the DSN is not empty, the handler of the logger
  that \<open>New\<close> returns is enabled for warn and for error whatever the level string is:
  the Sentry branch has the threshold warn, and the combined handler is enabled as soon
  as one branch is.
\<close>

theorem New_sentry_enabled_for_warn_error:
  "EnableSentry config \<Longrightarrow> SentryDSN config \<noteq> [] \<Longrightarrow>
   fst (New lib config w) = Inr logger \<Longrightarrow>
   Enabled lib (handler logger) LevelWarn \<and> Enabled lib (handler logger) LevelError"
  by (auto simp add: New_def Let_def slog_New_def level_defs split: option.splits)

theorem New_sentry_enabled_for_warn_error_witness:
  "EnableSentry \<lparr>LogLevel = ''error'', SentryDSN = ''https://k@h/1'', EnableSentry = True\<rparr> \<and>
   SentryDSN \<lparr>LogLevel = ''error'', SentryDSN = ''https://k@h/1'', EnableSentry = True\<rparr> \<noteq> [] \<and>
   fst (New double \<lparr>LogLevel = ''error'', SentryDSN = ''https://k@h/1'', EnableSentry = True\<rparr>
          world0)
     = Inr (Logger (CombinedHandler
                      (External (json0\<lparr>double_opts :=
                         \<lparr>HandlerOptions_Level = LevelError, HandlerOptions_AddSource = True\<rparr>\<rparr>))
                      (SentryHandler None LevelWarn))) \<and>
   \<not> Enabled double
       (External (json0\<lparr>double_opts :=
          \<lparr>HandlerOptions_Level = LevelError, HandlerOptions_AddSource = True\<rparr>\<rparr>)) LevelWarn \<and>
   Enabled double
     (CombinedHandler
        (External (json0\<lparr>double_opts :=
           \<lparr>HandlerOptions_Level = LevelError, HandlerOptions_AddSource = True\<rparr>\<rparr>))
        (SentryHandler None LevelWarn)) LevelWarn"
proof -
  have on: "EnableSentry
      \<lparr>LogLevel = ''error'', SentryDSN = ''https://k@h/1'', EnableSentry = True\<rparr>"
    by simp
  have dsn: "SentryDSN
      \<lparr>LogLevel = ''error'', SentryDSN = ''https://k@h/1'', EnableSentry = True\<rparr> \<noteq> []"
    by simp
  have ok: "fst (New double
      \<lparr>LogLevel = ''error'', SentryDSN = ''https://k@h/1'', EnableSentry = True\<rparr> world0)
     = Inr (Logger (CombinedHandler
                      (External (json0\<lparr>double_opts :=
                         \<lparr>HandlerOptions_Level = LevelError, HandlerOptions_AddSource = True\<rparr>\<rparr>))
                      (SentryHandler None LevelWarn)))"
    by (simp add: double_defs level_defs New_defs)
  from New_sentry_enabled_for_warn_error [OF on dsn ok] on dsn ok
  show ?thesis
    by (simp add: double_defs level_defs)
qed

end
